theory Spec2Isabelle
  imports Main "HOL-Library.Multiset"
begin

section \<open>The scoring engine of decihier.py\<close>

text \<open>
  A shallow embedding of \<^verbatim>\<open>psychology_predictor\<close> (src/decihier.py, lines 57-178) and of
  the constants it reads. Python integers are \<open>int\<close>, dictionaries are maps, a
  subscript on a missing key is the value \<open>Inl KeyError\<close>, and the function's
  \<^verbatim>\<open>return None\<close> is the result \<open>NotFound\<close>. An exception that leaves the function
  is the result \<open>Raises\<close>.
\<close>

subsection \<open>Configuration\<close>

definition TRAIT_MAP :: "(string \<times> string) list" where
  "TRAIT_MAP =
     [(''TA'', ''Technical Acumen''), (''SL'', ''Strategic Leadership''),
      (''ER'', ''Ethical Responsibility''), (''BP'', ''Business Profitability''),
      (''BS'', ''Behavioral Speed'')]"

definition TOO_FAST :: int where "TOO_FAST = 15000"
definition OPTIMAL_MIN :: int where "OPTIMAL_MIN = 30000"
definition OPTIMAL_MAX :: int where "OPTIMAL_MAX = 60000"
definition TOO_SLOW :: int where "TOO_SLOW = 60001"

subsection \<open>Data\<close>

datatype exn = KeyError | ValueError | TypeError | OverflowError | ZeroDivisionError

text \<open>
  An option of a question: its text and its score dictionary, kept as the list of its
  items in iteration order.
\<close>

record opt =
  o_text :: string
  o_score :: "(string \<times> int) list"

record question =
  q_id :: string
  q_prompt :: string
  q_options :: "opt list"

text \<open>
  A field of a submitted answer is a JSON value, and the code passes it to \<^verbatim>\<open>int()\<close>.
  \<open>JInt i\<close> is a value that \<^verbatim>\<open>int()\<close> converts to \<open>i\<close> (a finite number, a boolean, or a
  string holding an integer literal), \<open>JText\<close> a value on which \<^verbatim>\<open>int()\<close> raises ValueError
  (a string that holds no integer literal, or the float NaN), \<open>JNull\<close> a value of a type
  that \<^verbatim>\<open>int()\<close> rejects with TypeError (null, a list, an object), and \<open>JInf\<close> a float
  infinity, which the JSON texts \<^verbatim>\<open>1e999\<close> and \<^verbatim>\<open>Infinity\<close> load as and on which \<^verbatim>\<open>int()\<close>
  raises OverflowError.
\<close>

datatype jvalue = JInt int | JText | JNull | JInf

fun py_int :: "jvalue \<Rightarrow> exn + int" where
  "py_int (JInt i) = Inr i"
| "py_int JText = Inl ValueError"
| "py_int JNull = Inl TypeError"
| "py_int JInf = Inl OverflowError"

text \<open>An answer dictionary; \<open>None\<close> is a key that the dictionary does not have.\<close>

record answer =
  questionId :: "string option"
  selectedOptionIndex :: "jvalue option"
  timeTakenMs :: "jvalue option"

record behavioral_summary =
  fastResponses :: int
  slowResponses :: int
  optimalResponses :: int
  totalTimeMs :: int

record detail =
  d_questionId :: string
  d_prompt :: string
  d_chosenOptionText :: string
  d_rawScoreImpact :: "(string \<times> int) list"
  d_timeTakenMs :: int
  d_timeBehavior :: string
  d_traitMap :: "(string \<times> string) list"

text \<open>The local variables that the loop over the answers updates.\<close>

record loop_state =
  total_raw_score :: int
  skill_scores :: "string \<rightharpoonup> int"
  summary :: behavioral_summary
  detailed_results :: "detail list"
  max_possible_trait_score_base :: int

record report =
  totalScore :: int
  skillScores :: "string \<rightharpoonup> int"
  behavioralSummary :: behavioral_summary
  detailedResults :: "detail list"
  jobTitle :: string
  candidateName :: string
  testId :: string
  passThreshold :: int
  traitMap :: "(string \<times> string) list"

datatype result = Raises exn | NotFound | Report report

text \<open>The globals and the session that the function reads.\<close>

record session =
  test_id :: "string option"
  candidate_name :: "string option"

record generated_test =
  role :: string
  questions :: "question list"

record job_profile =
  skills_required :: "string list"
  profile_questions :: "question list"

record assessment_data =
  PASS_THRESHOLD :: int
  JOB_PROFILES :: "string \<rightharpoonup> job_profile"

record env =
  the_session :: session
  GENERATED_TESTS :: "string \<rightharpoonup> generated_test"
  ASSESSMENT_DATA :: assessment_data

subsection \<open>The loop body\<close>

text \<open>A dictionary subscript: \<^verbatim>\<open>d[k]\<close> raises KeyError on a missing key.\<close>

definition subscript :: "'a option \<Rightarrow> exn + 'a" where
  "subscript v = (case v of None \<Rightarrow> Inl KeyError | Some x \<Rightarrow> Inr x)"

text \<open>\<^verbatim>\<open>d[k] += n\<close> on a dictionary of integers.\<close>

definition dict_add :: "(string \<rightharpoonup> int) \<Rightarrow> string \<Rightarrow> int \<Rightarrow> exn + (string \<rightharpoonup> int)" where
  "dict_add d k n = (case d k of None \<Rightarrow> Inl KeyError | Some v \<Rightarrow> Inr (d(k \<mapsto> v + n)))"

definition bind_exn :: "exn + 'a \<Rightarrow> ('a \<Rightarrow> exn + 'b) \<Rightarrow> exn + 'b" where
  "bind_exn m f = (case m of Inl e \<Rightarrow> Inl e | Inr x \<Rightarrow> f x)"

text \<open>
  Lines 84-85: \<^verbatim>\<open>next((q for q in job_questions if q['id'] == answer['questionId']), None)\<close>.
  The condition is evaluated once for each question visited, so a missing
  \<^verbatim>\<open>questionId\<close> raises as soon as there is a question to compare with.
\<close>

fun find_question :: "question list \<Rightarrow> answer \<Rightarrow> exn + question option" where
  "find_question [] answer = Inr None"
| "find_question (q # qs) answer =
     (case questionId answer of
        None \<Rightarrow> Inl KeyError
      | Some i \<Rightarrow> if q_id q = i then Inr (Some q) else find_question qs answer)"

text \<open>
  Lines 91-95, the \<^verbatim>\<open>try\<close> block: \<open>Inr None\<close> is the \<^verbatim>\<open>continue\<close> of the handler, which
  catches ValueError and TypeError only. A KeyError of a missing field and the
  OverflowError of an infinite value leave the block and the function.
\<close>

definition parse_fields :: "answer \<Rightarrow> exn + (int \<times> int) option" where
  "parse_fields answer =
     (case bind_exn (subscript (selectedOptionIndex answer)) (\<lambda>v. bind_exn (py_int v) (\<lambda>option_index.
           bind_exn (subscript (timeTakenMs answer)) (\<lambda>w. bind_exn (py_int w) (\<lambda>time_taken.
           Inr (option_index, time_taken))))) of
        Inl e \<Rightarrow> if e = ValueError \<or> e = TypeError then Inr None else Inl e
      | Inr p \<Rightarrow> Inr (Some p))"

text \<open>Lines 106-109: the loop over the items of the chosen option's score dictionary.\<close>

fun add_option_score ::
  "(string \<times> int) list \<Rightarrow> (string \<rightharpoonup> int) \<times> int \<Rightarrow> exn + ((string \<rightharpoonup> int) \<times> int)" where
  "add_option_score [] (sk, question_points) = Inr (sk, question_points)"
| "add_option_score ((trait_key, score) # rest) (sk, question_points) =
     bind_exn (dict_add sk trait_key score) (\<lambda>sk'.
       add_option_score rest (sk', question_points + score))"

text \<open>
  Lines 111-133: the time logic. It returns the time score, the skill scores, the
  behavioural summary and the label.
\<close>

definition time_logic ::
  "int \<Rightarrow> (string \<rightharpoonup> int) \<Rightarrow> behavioral_summary \<Rightarrow>
   exn + (int \<times> (string \<rightharpoonup> int) \<times> behavioral_summary \<times> string)" where
  "time_logic time_taken sk bs =
     (if time_taken < TOO_FAST then
        bind_exn (dict_add sk ''BS'' 5) (\<lambda>sk1.
        bind_exn (dict_add sk1 ''ER'' (- 5)) (\<lambda>sk2.
        bind_exn (dict_add sk2 ''SL'' (- 5)) (\<lambda>sk3.
        Inr (- 20, sk3, bs\<lparr>fastResponses := fastResponses bs + 1\<rparr>,
             ''Too Fast (Lack of Contemplation)''))))
      else if time_taken > OPTIMAL_MAX then
        bind_exn (dict_add sk ''TA'' (- 5)) (\<lambda>sk1.
        bind_exn (dict_add sk1 ''BS'' (- 10)) (\<lambda>sk2.
        Inr (- 20, sk2, bs\<lparr>slowResponses := slowResponses bs + 1\<rparr>,
             ''Too Slow (Inefficiency)'')))
      else if OPTIMAL_MIN \<le> time_taken \<and> time_taken \<le> OPTIMAL_MAX then
        bind_exn (dict_add sk ''BS'' 5) (\<lambda>sk1.
        Inr (5, sk1, bs\<lparr>optimalResponses := optimalResponses bs + 1\<rparr>, ''Optimal''))
      else Inr (0, sk, bs, ''Optimal''))"

text \<open>Lines 102-145: what the loop does with an answer that passed every check.\<close>

definition process_answer ::
  "string \<Rightarrow> question \<Rightarrow> opt \<Rightarrow> int \<Rightarrow> loop_state \<Rightarrow> exn + loop_state" where
  "process_answer qid question option time_taken st =
     (let bs = (summary st)\<lparr>totalTimeMs := totalTimeMs (summary st) + time_taken\<rparr>;
          option_score = o_score option
      in bind_exn (add_option_score option_score (skill_scores st, 0)) (\<lambda>(sk, question_points).
         bind_exn (time_logic time_taken sk bs) (\<lambda>(time_score, sk', bs', time_behavior).
         Inr (st\<lparr>total_raw_score := total_raw_score st + (question_points + time_score),
                 skill_scores := sk',
                 summary := bs',
                 detailed_results := detailed_results st @
                   [\<lparr>d_questionId = qid, d_prompt = q_prompt question,
                     d_chosenOptionText = o_text option, d_rawScoreImpact = option_score,
                     d_timeTakenMs = time_taken, d_timeBehavior = time_behavior,
                     d_traitMap = TRAIT_MAP\<rparr>]\<rparr>))))"

text \<open>Lines 84-145: one iteration of \<^verbatim>\<open>for answer in answers\<close>.\<close>

definition step :: "question list \<Rightarrow> answer \<Rightarrow> loop_state \<Rightarrow> exn + loop_state" where
  "step job_questions answer st =
     bind_exn (find_question job_questions answer) (\<lambda>found.
       case found of
         None \<Rightarrow> Inr st
       | Some question \<Rightarrow>
           (let st1 = st\<lparr>max_possible_trait_score_base :=
                            max_possible_trait_score_base st + 10\<rparr>
            in bind_exn (parse_fields answer) (\<lambda>parsed.
                 case parsed of
                   None \<Rightarrow> Inr st1
                 | Some (option_index, time_taken) \<Rightarrow>
                     if 0 \<le> option_index \<and> option_index < int (length (q_options question))
                     then bind_exn (subscript (questionId answer)) (\<lambda>qid.
                            process_answer qid question
                              (q_options question ! nat option_index) time_taken st1)
                     else Inr st1)))"

fun run_loop :: "question list \<Rightarrow> answer list \<Rightarrow> loop_state \<Rightarrow> exn + loop_state" where
  "run_loop job_questions [] st = Inr st"
| "run_loop job_questions (answer # answers) st =
     bind_exn (step job_questions answer st) (run_loop job_questions answers)"

subsection \<open>Resolution, normalisation and the report\<close>

text \<open>Lines 59-63: the question set, \<open>None\<close> when \<^verbatim>\<open>job_questions\<close> stays \<^verbatim>\<open>None\<close>.\<close>

definition resolve_job_questions :: "env \<Rightarrow> string \<Rightarrow> question list option" where
  "resolve_job_questions e job_key =
     (case (case test_id (the_session e) of None \<Rightarrow> None | Some t \<Rightarrow> GENERATED_TESTS e t) of
        Some g \<Rightarrow> Some (questions g)
      | None \<Rightarrow>
          (case JOB_PROFILES (ASSESSMENT_DATA e) job_key of
             Some p \<Rightarrow> Some (profile_questions p)
           | None \<Rightarrow> None))"

text \<open>
  Lines 68-81: the variables before the loop. Lines 71-73 store 0 again under every key
  of \<^verbatim>\<open>TRAIT_MAP\<close>.
\<close>

definition initial_state :: loop_state where
  "initial_state =
     \<lparr>total_raw_score = 0,
      skill_scores =
        fold (\<lambda>skill d. d(skill \<mapsto> 0)) (map fst TRAIT_MAP)
          [''TA'' \<mapsto> 0, ''SL'' \<mapsto> 0, ''ER'' \<mapsto> 0, ''BP'' \<mapsto> 0, ''BS'' \<mapsto> 0],
      summary = \<lparr>fastResponses = 0, slowResponses = 0, optimalResponses = 0, totalTimeMs = 0\<rparr>,
      detailed_results = [],
      max_possible_trait_score_base = 0\<rparr>"

definition MAX_POSSIBLE_SCORE :: "question list \<Rightarrow> int" where
  "MAX_POSSIBLE_SCORE job_questions = int (length job_questions) * 15"

text \<open>
  The two normalisations compute \<^verbatim>\<open>round((a / b) * 100)\<close> in floating point, and the
  expression raises when the quotient or the product leaves the range of a float. It
  is the parameter \<open>rnd\<close> of the embedding: \<open>rnd a b\<close> is what Python gives for the
  integers \<open>a\<close> and \<open>b\<close>, either \<open>Inr\<close> of the rounded integer or \<open>Inl\<close> of the exception.
  The function \<open>py_round_pct\<close> below computes it in IEEE 754 double precision.
\<close>

text \<open>
  Lines 157-166: the body of the loop over the keys of \<^verbatim>\<open>skill_scores\<close>, which stores the
  normalised score under the key.
\<close>

definition normalize_key ::
  "(int \<Rightarrow> int \<Rightarrow> exn + int) \<Rightarrow> int \<Rightarrow> string \<Rightarrow> (string \<rightharpoonup> int) \<Rightarrow> exn + (string \<rightharpoonup> int)" where
  "normalize_key rnd base key sk =
     (case sk key of
        None \<Rightarrow> Inl KeyError
      | Some v \<Rightarrow>
          if key \<noteq> ''BS'' then
            bind_exn (if base > 0 then rnd v base else Inr 0) (\<lambda>score_val.
              Inr (sk(key \<mapsto> max 0 (min 100 score_val))))
          else Inr (sk(key \<mapsto> max 0 (min 100 v))))"

text \<open>
  Line 156, \<^verbatim>\<open>for key in skill_scores\<close>: the keys are visited in the order in which line 69
  inserted them. No later statement adds a key: lines 72-73 and the answers' loop assign
  to keys that exist, and \<^verbatim>\<open>+=\<close> on a missing key raises.
\<close>

definition skill_keys :: "string list" where
  "skill_keys = [''TA'', ''SL'', ''ER'', ''BP'', ''BS'']"

fun normalize_skills ::
  "(int \<Rightarrow> int \<Rightarrow> exn + int) \<Rightarrow> int \<Rightarrow> string list \<Rightarrow> (string \<rightharpoonup> int) \<Rightarrow>
   exn + (string \<rightharpoonup> int)" where
  "normalize_skills rnd base [] sk = Inr sk"
| "normalize_skills rnd base (key # keys) sk =
     bind_exn (normalize_key rnd base key sk) (normalize_skills rnd base keys)"

text \<open>Lines 147-178: the normalisation after the loop and the dictionary returned.\<close>

definition build_report ::
  "(int \<Rightarrow> int \<Rightarrow> exn + int) \<Rightarrow> env \<Rightarrow> string \<Rightarrow> question list \<Rightarrow> loop_state \<Rightarrow>
   exn + report" where
  "build_report rnd e job_key job_questions st =
     bind_exn (rnd (total_raw_score st) (MAX_POSSIBLE_SCORE job_questions)) (\<lambda>rounded.
     bind_exn (normalize_skills rnd (max_possible_trait_score_base st) skill_keys
                 (skill_scores st)) (\<lambda>sk.
     Inr \<lparr>totalScore = max 0 (min 100 rounded),
          skillScores = sk,
          behavioralSummary = summary st,
          detailedResults = detailed_results st,
          jobTitle = job_key,
          candidateName =
            (case candidate_name (the_session e) of None \<Rightarrow> ''N/A'' | Some n \<Rightarrow> n),
          testId = (case test_id (the_session e) of None \<Rightarrow> ''N/A'' | Some t \<Rightarrow> t),
          passThreshold = PASS_THRESHOLD (ASSESSMENT_DATA e),
          traitMap = TRAIT_MAP\<rparr>))"

text \<open>
  Lines 65-178: the function from \<^verbatim>\<open>if not job_questions\<close> on. \<^verbatim>\<open>not job_questions\<close> holds
  for \<^verbatim>\<open>None\<close> and for the empty list.
\<close>

definition score_questions ::
  "(int \<Rightarrow> int \<Rightarrow> exn + int) \<Rightarrow> env \<Rightarrow> string \<Rightarrow> question list option \<Rightarrow> answer list \<Rightarrow>
   result" where
  "score_questions rnd e job_key job_questions answers =
     (case job_questions of
        None \<Rightarrow> NotFound
      | Some qs \<Rightarrow>
          if qs = [] then NotFound
          else (case bind_exn (run_loop qs answers initial_state)
                       (build_report rnd e job_key qs) of
                  Inl x \<Rightarrow> Raises x
                | Inr r \<Rightarrow> Report r))"

definition psychology_predictor ::
  "(int \<Rightarrow> int \<Rightarrow> exn + int) \<Rightarrow> env \<Rightarrow> string \<Rightarrow> answer list \<Rightarrow> result" where
  "psychology_predictor rnd e job_key answers =
     score_questions rnd e job_key (resolve_job_questions e job_key) answers"

subsection \<open>The floating-point expression\<close>

text \<open>
  \<^verbatim>\<open>round((a / b) * 100)\<close> on Python integers. The true division of two integers gives
  the double nearest to the exact quotient and raises OverflowError when that is out of
  range; the product with 100 is rounded to the nearest double again and is infinite
  when out of range, and \<^verbatim>\<open>round\<close> of an infinity raises OverflowError; \<^verbatim>\<open>round\<close> of a
  finite double is the nearest integer. All three roundings send a tie to the even
  neighbour. A double is kept as the fraction \<open>(n, d)\<close> of two integers that it equals.
\<close>

text \<open>The number of binary digits of a positive integer (\<^verbatim>\<open>int.bit_length\<close>).\<close>

function bit_length :: "int \<Rightarrow> int" where
  "bit_length n = (if n \<le> 0 then 0 else 1 + bit_length (n div 2))"
  by pat_completeness auto
termination
  by (relation "measure nat") auto

declare bit_length.simps [simp del]

text \<open>The integer nearest to \<open>p / q\<close> for \<open>q > 0\<close>, a tie going to the even one.\<close>

definition round_half_even :: "int \<Rightarrow> int \<Rightarrow> int" where
  "round_half_even p q =
     (let f = p div q; r = p mod q
      in if 2 * r < q then f else if 2 * r > q then f + 1 else if even f then f else f + 1)"

text \<open>The exponent \<open>e\<close> with \<open>2 ^ e \<le> p / q < 2 ^ (e + 1)\<close>, for positive \<open>p\<close> and \<open>q\<close>.\<close>

definition floor_log2 :: "int \<Rightarrow> int \<Rightarrow> int" where
  "floor_log2 p q =
     (let d = bit_length p - bit_length q
      in if (if 0 \<le> d then q * 2 ^ nat d \<le> p else q \<le> p * 2 ^ nat (- d)) then d else d - 1)"

text \<open>
  The double nearest to \<open>p / q\<close> for \<open>q > 0\<close>: a multiple \<open>m * 2 ^ ex\<close> of the spacing of the
  doubles around the quotient, which is \<open>2 ^ (e - 52)\<close> for the quotient's exponent \<open>e\<close> and
  \<open>2 ^ (- 1074)\<close> in the subnormal range. \<open>None\<close> is a result of magnitude \<open>2 ^ 1024\<close> or more.
\<close>

definition nearest_double :: "int \<Rightarrow> int \<Rightarrow> (int \<times> int) option" where
  "nearest_double p q =
     (if p = 0 then Some (0, 1)
      else
        (let ex = max (floor_log2 \<bar>p\<bar> q - 52) (- 1074);
             m = (if 0 \<le> ex then round_half_even p (q * 2 ^ nat ex)
                  else round_half_even (p * 2 ^ nat (- ex)) q);
             (n, d) = (if 0 \<le> ex then (m * 2 ^ nat ex, 1) else (m, 2 ^ nat (- ex)))
         in if 2 ^ 1024 * d \<le> \<bar>n\<bar> then None else Some (n, d)))"

definition py_round_pct :: "int \<Rightarrow> int \<Rightarrow> exn + int" where
  "py_round_pct a b =
     (if b = 0 then Inl ZeroDivisionError
      else
        (case nearest_double (a * sgn b) \<bar>b\<bar> of
           None \<Rightarrow> Inl OverflowError
         | Some (n, d) \<Rightarrow>
             (case nearest_double (n * 100) d of
                None \<Rightarrow> Inl OverflowError
              | Some (n', d') \<Rightarrow> Inr (round_half_even n' d'))))"

subsection \<open>Auxiliary definitions for the proofs\<close>

definition TRAITS :: "string set" where
  "TRAITS = {''TA'', ''SL'', ''ER'', ''BP'', ''BS''}"

definition key_sum :: "(string \<times> int) list \<Rightarrow> string \<Rightarrow> int" where
  "key_sum sc k = sum_list (map snd (filter (\<lambda>p. fst p = k) sc))"

definition shift :: "(string \<rightharpoonup> int) \<Rightarrow> (string \<Rightarrow> int) \<Rightarrow> (string \<rightharpoonup> int)" where
  "shift sk d = (\<lambda>k. case sk k of None \<Rightarrow> None | Some v \<Rightarrow> Some (v + d k))"

definition add_state :: "loop_state \<Rightarrow> loop_state \<Rightarrow> loop_state" where
  "add_state st d =
     \<lparr>total_raw_score = total_raw_score st + total_raw_score d,
      skill_scores =
        shift (skill_scores st) (\<lambda>k. case skill_scores d k of None \<Rightarrow> 0 | Some w \<Rightarrow> w),
      summary =
        \<lparr>fastResponses = fastResponses (summary st) + fastResponses (summary d),
         slowResponses = slowResponses (summary st) + slowResponses (summary d),
         optimalResponses = optimalResponses (summary st) + optimalResponses (summary d),
         totalTimeMs = totalTimeMs (summary st) + totalTimeMs (summary d)\<rparr>,
      detailed_results = detailed_results st @ detailed_results d,
      max_possible_trait_score_base =
        max_possible_trait_score_base st + max_possible_trait_score_base d\<rparr>"

definition time_score :: "int \<Rightarrow> int" where
  "time_score t = (if t < 15000 then - 20 else if t > 60000 then - 20
                   else if 30000 \<le> t then 5 else 0)"

definition time_adj :: "int \<Rightarrow> string \<Rightarrow> int" where
  "time_adj t k =
     (if t < 15000 then (if k = ''BS'' then 5 else if k = ''ER'' \<or> k = ''SL'' then - 5 else 0)
      else if t > 60000 then (if k = ''TA'' then - 5 else if k = ''BS'' then - 10 else 0)
      else if 30000 \<le> t then (if k = ''BS'' then 5 else 0)
      else 0)"

definition count_response :: "int \<Rightarrow> behavioral_summary \<Rightarrow> behavioral_summary" where
  "count_response t bs =
     (if t < 15000 then bs\<lparr>fastResponses := fastResponses bs + 1\<rparr>
      else if t > 60000 then bs\<lparr>slowResponses := slowResponses bs + 1\<rparr>
      else if 30000 \<le> t then bs\<lparr>optimalResponses := optimalResponses bs + 1\<rparr>
      else bs)"

definition time_label :: "int \<Rightarrow> string" where
  "time_label t =
     (if t < 15000 then ''Too Fast (Lack of Contemplation)''
      else if t > 60000 then ''Too Slow (Inefficiency)'' else ''Optimal'')"

definition mk_detail :: "string \<Rightarrow> question \<Rightarrow> opt \<Rightarrow> int \<Rightarrow> detail" where
  "mk_detail qid q option t =
     \<lparr>d_questionId = qid, d_prompt = q_prompt q, d_chosenOptionText = o_text option,
      d_rawScoreImpact = o_score option, d_timeTakenMs = t, d_timeBehavior = time_label t,
      d_traitMap = TRAIT_MAP\<rparr>"

definition delta :: "question list \<Rightarrow> answer \<Rightarrow> loop_state" where
  "delta qs a = (case step qs a initial_state of Inl e \<Rightarrow> initial_state | Inr d \<Rightarrow> d)"

definition raises :: "question list \<Rightarrow> answer \<Rightarrow> bool" where
  "raises qs a = (case step qs a initial_state of Inl e \<Rightarrow> True | Inr d \<Rightarrow> False)"

definition add_deltas :: "question list \<Rightarrow> answer list \<Rightarrow> loop_state \<Rightarrow> loop_state" where
  "add_deltas qs as st = fold (\<lambda>a acc. add_state acc (delta qs a)) as st"

definition forget :: "loop_state \<Rightarrow> loop_state" where
  "forget st = st\<lparr>detailed_results := []\<rparr>"

text \<open>
  The value that lines 157-166 store under a key whose raw total is \<open>v\<close>.
\<close>

definition norm_value :: "(int \<Rightarrow> int \<Rightarrow> exn + int) \<Rightarrow> int \<Rightarrow> string \<Rightarrow> int \<Rightarrow> exn + int" where
  "norm_value rnd base key v =
     (if key \<noteq> ''BS'' then
        (if base > 0 then (case rnd v base of Inl x \<Rightarrow> Inl x | Inr n \<Rightarrow> Inr (max 0 (min 100 n)))
         else Inr 0)
      else Inr (max 0 (min 100 v)))"

text \<open>
  The behavioural summary counts what the detailed results list: an invariant of the loop.
\<close>

definition consistent :: "loop_state \<Rightarrow> bool" where
  "consistent st \<longleftrightarrow>
     totalTimeMs (summary st) = sum_list (map d_timeTakenMs (detailed_results st)) \<and>
     fastResponses (summary st) =
       int (length (filter (\<lambda>d. d_timeTakenMs d < 15000) (detailed_results st))) \<and>
     slowResponses (summary st) =
       int (length (filter (\<lambda>d. d_timeTakenMs d > 60000) (detailed_results st))) \<and>
     optimalResponses (summary st) =
       int (length (filter (\<lambda>d. 30000 \<le> d_timeTakenMs d \<and> d_timeTakenMs d \<le> 60000)
              (detailed_results st)))"

subsection \<open>Concrete inputs\<close>

text \<open>One question with a single option worth ten points of TA, and an answer to it.\<close>

definition example_question :: question where
  "example_question =
     \<lparr>q_id = ''q1'', q_prompt = ''Pick one'',
      q_options = [\<lparr>o_text = ''yes'', o_score = [(''TA'', 10)]\<rparr>]\<rparr>"

definition example_answer :: "int \<Rightarrow> answer" where
  "example_answer t =
     \<lparr>questionId = Some ''q1'', selectedOptionIndex = Some (JInt 0), timeTakenMs = Some (JInt t)\<rparr>"

definition other_question :: question where
  "other_question =
     \<lparr>q_id = ''q2'', q_prompt = ''Pick another'',
      q_options = [\<lparr>o_text = ''no'', o_score = [(''SL'', 4)]\<rparr>]\<rparr>"

definition example_env :: "string option \<Rightarrow> env" where
  "example_env t =
     \<lparr>the_session = \<lparr>test_id = t, candidate_name = Some ''Ada''\<rparr>,
      GENERATED_TESTS = [''abc123'' \<mapsto> \<lparr>role = ''dev'', questions = [example_question]\<rparr>],
      ASSESSMENT_DATA =
        \<lparr>PASS_THRESHOLD = 75,
         JOB_PROFILES =
           [''dev'' \<mapsto> \<lparr>skills_required = [''TA''], profile_questions = [other_question]\<rparr>]\<rparr>\<rparr>"

text \<open>
  The variables of the loop after the answer \<open>example_answer 45000\<close> to \<open>example_question\<close>.
\<close>

definition example_final :: loop_state where
  "example_final =
     \<lparr>total_raw_score = 15,
      skill_scores = [''TA'' \<mapsto> 10, ''SL'' \<mapsto> 0, ''ER'' \<mapsto> 0, ''BP'' \<mapsto> 0, ''BS'' \<mapsto> 5],
      summary =
        \<lparr>fastResponses = 0, slowResponses = 0, optimalResponses = 1, totalTimeMs = 45000\<rparr>,
      detailed_results =
        [\<lparr>d_questionId = ''q1'', d_prompt = ''Pick one'', d_chosenOptionText = ''yes'',
          d_rawScoreImpact = [(''TA'', 10)], d_timeTakenMs = 45000,
          d_timeBehavior = ''Optimal'', d_traitMap = TRAIT_MAP\<rparr>],
      max_possible_trait_score_base = 10\<rparr>"

section \<open>Properties of the loop\<close>

lemma initial_skill_scores:
  "skill_scores initial_state = [''TA'' \<mapsto> 0, ''SL'' \<mapsto> 0, ''ER'' \<mapsto> 0, ''BP'' \<mapsto> 0, ''BS'' \<mapsto> 0]"
  by (simp add: initial_state_def TRAIT_MAP_def fun_eq_iff)

lemma dom_initial: "dom (skill_scores initial_state) = TRAITS"
  by (auto simp add: initial_skill_scores TRAITS_def split: if_splits)

lemma dom_shift [simp]: "dom (shift sk d) = dom sk"
  by (auto simp: shift_def split: option.splits)

lemma shift_zero [simp]: "shift sk (\<lambda>k. 0) = sk"
  by (auto simp: shift_def fun_eq_iff split: option.splits)

lemma shift_shift: "shift (shift sk d) d' = shift sk (\<lambda>k. d k + d' k)"
  by (auto simp: shift_def fun_eq_iff split: option.splits)

lemma dict_add_shift:
  "dict_add sk k n = (if k \<in> dom sk then Inr (shift sk (\<lambda>j. if j = k then n else 0)) else Inl KeyError)"
  by (auto simp: dict_add_def shift_def fun_eq_iff split: option.splits)

lemma key_sum_Nil [simp]: "key_sum [] = (\<lambda>k. 0)"
  by (simp add: key_sum_def fun_eq_iff)

lemma key_sum_Cons:
  "key_sum ((k, n) # sc) = (\<lambda>j. (if j = k then n else 0) + key_sum sc j)"
  by (simp add: key_sum_def fun_eq_iff)

lemma add_option_score_eq:
  "add_option_score sc (sk, p) =
     (if fst ` set sc \<subseteq> dom sk then Inr (shift sk (key_sum sc), p + sum_list (map snd sc))
      else Inl KeyError)"
proof (induction sc arbitrary: sk p)
  case Nil
  then show ?case by simp
next
  case (Cons x sc)
  obtain k n where x: "x = (k, n)" by (cases x)
  show ?case
    unfolding x
    by (auto simp add: Cons.IH dict_add_shift bind_exn_def shift_shift key_sum_Cons)
qed

lemma time_logic_eq:
  assumes "TRAITS \<subseteq> dom sk"
  shows "time_logic t sk bs =
     Inr (time_score t, shift sk (time_adj t),
          (if t < 15000 then bs\<lparr>fastResponses := fastResponses bs + 1\<rparr>
           else if t > 60000 then bs\<lparr>slowResponses := slowResponses bs + 1\<rparr>
           else if 30000 \<le> t then bs\<lparr>optimalResponses := optimalResponses bs + 1\<rparr>
           else bs),
          (if t < 15000 then ''Too Fast (Lack of Contemplation)''
           else if t > 60000 then ''Too Slow (Inefficiency)'' else ''Optimal''))"
proof -
  have k: "''BS'' \<in> dom sk" "''ER'' \<in> dom sk" "''SL'' \<in> dom sk" "''TA'' \<in> dom sk"
    using assms by (auto simp: TRAITS_def)
  have e: "\<And>f g. (\<And>j. f j = g j) \<Longrightarrow> shift sk f = shift sk g"
    by presburger
  have e0: "\<And>f. (\<And>j. f j = 0) \<Longrightarrow> sk = shift sk f"
    by (auto simp: shift_def fun_eq_iff split: option.splits)
  show ?thesis
    using k
    by (auto simp add: time_logic_def dict_add_shift bind_exn_def shift_shift time_score_def
        time_adj_def TOO_FAST_def OPTIMAL_MAX_def OPTIMAL_MIN_def intro!: e e0)
qed

lemma time_logic_eq':
  "TRAITS \<subseteq> dom sk \<Longrightarrow>
   time_logic t sk bs = Inr (time_score t, shift sk (time_adj t), count_response t bs, time_label t)"
  by (simp add: time_logic_eq count_response_def time_label_def)

lemma process_answer_eq:
  assumes "TRAITS \<subseteq> dom (skill_scores st)"
  shows "process_answer qid q option t st =
     (if fst ` set (o_score option) \<subseteq> dom (skill_scores st) then
        Inr (st\<lparr>total_raw_score :=
                   total_raw_score st + (sum_list (map snd (o_score option)) + time_score t),
                skill_scores :=
                   shift (skill_scores st) (\<lambda>k. key_sum (o_score option) k + time_adj t k),
                summary :=
                   count_response t
                     ((summary st)\<lparr>totalTimeMs := totalTimeMs (summary st) + t\<rparr>),
                detailed_results := detailed_results st @ [mk_detail qid q option t]\<rparr>)
      else Inl KeyError)"
  using assms
  by (simp add: process_answer_def add_option_score_eq bind_exn_def time_logic_eq' shift_shift
      mk_detail_def Let_def)

lemma shift_cong: "(\<And>k. k \<in> dom sk \<Longrightarrow> f k = g k) \<Longrightarrow> shift sk f = shift sk g"
  by (auto simp: shift_def fun_eq_iff split: option.splits)

lemma shift_initial:
  "k \<in> TRAITS \<Longrightarrow> shift (skill_scores initial_state) f k = Some (f k)"
  by (auto simp: shift_def initial_skill_scores TRAITS_def)

lemma initial_fields [simp]:
  "total_raw_score initial_state = 0"
  "summary initial_state =
     \<lparr>fastResponses = 0, slowResponses = 0, optimalResponses = 0, totalTimeMs = 0\<rparr>"
  "detailed_results initial_state = []"
  "max_possible_trait_score_base initial_state = 0"
  by (simp_all add: initial_state_def)

lemma add_state_initial:
  assumes "dom (skill_scores st) = TRAITS"
  shows "add_state st initial_state = st"
proof -
  have "shift (skill_scores st)
          (\<lambda>k. case skill_scores initial_state k of None \<Rightarrow> 0 | Some w \<Rightarrow> w) = skill_scores st"
    by (auto simp: shift_def fun_eq_iff initial_skill_scores split: option.splits)
  then show ?thesis by (simp add: add_state_def)
qed

lemma add_state_base:
  assumes "dom (skill_scores st) = TRAITS"
  shows "add_state st (initial_state\<lparr>max_possible_trait_score_base := n\<rparr>) =
         st\<lparr>max_possible_trait_score_base := max_possible_trait_score_base st + n\<rparr>"
proof -
  have "shift (skill_scores st)
          (\<lambda>k. case skill_scores initial_state k of None \<Rightarrow> 0 | Some w \<Rightarrow> w) = skill_scores st"
    by (auto simp: shift_def fun_eq_iff initial_skill_scores split: option.splits)
  then show ?thesis by (simp add: add_state_def)
qed

lemma add_state_process:
  assumes "dom (skill_scores st) = TRAITS"
  shows "add_state st
           (initial_state\<lparr>max_possible_trait_score_base := n, total_raw_score := r,
              skill_scores := shift (skill_scores initial_state) f,
              summary := count_response t
                 \<lparr>fastResponses = 0, slowResponses = 0, optimalResponses = 0, totalTimeMs = t\<rparr>,
              detailed_results := ds\<rparr>) =
         st\<lparr>max_possible_trait_score_base := max_possible_trait_score_base st + n,
            total_raw_score := total_raw_score st + r,
            skill_scores := shift (skill_scores st) f,
            summary := count_response t
                 ((summary st)\<lparr>totalTimeMs := totalTimeMs (summary st) + t\<rparr>),
            detailed_results := detailed_results st @ ds\<rparr>"
proof -
  have "shift (skill_scores st)
          (\<lambda>k. case shift (skill_scores initial_state) f k of None \<Rightarrow> 0 | Some w \<Rightarrow> w) =
        shift (skill_scores st) f"
    by (rule shift_cong) (simp add: assms shift_initial)
  then show ?thesis by (simp add: add_state_def count_response_def)
qed

lemma step_add:
  assumes "dom (skill_scores st) = TRAITS"
  shows "step qs a st =
     (case step qs a initial_state of Inl e \<Rightarrow> Inl e | Inr d \<Rightarrow> Inr (add_state st d))"
proof -
  note d = assms dom_initial
  show ?thesis
    by (simp add: step_def bind_exn_def process_answer_eq d subscript_def Let_def
        add_state_initial add_state_base add_state_process
        split: sum.splits option.splits prod.splits)
qed

lemma dom_add_state [simp]: "dom (skill_scores (add_state st d)) = dom (skill_scores st)"
  by (simp add: add_state_def)

lemma step_delta:
  assumes "dom (skill_scores st) = TRAITS"
  shows "step qs a st =
     (case step qs a initial_state of
        Inl x \<Rightarrow> Inl x
      | Inr d \<Rightarrow> Inr (add_state st (delta qs a)))"
  by (simp add: step_add [OF assms] delta_def split: sum.splits)

lemma run_loop_Inr_iff:
  assumes "dom (skill_scores st) = TRAITS"
  shows "run_loop qs as st = Inr st' \<longleftrightarrow>
     (\<forall>a\<in>set as. \<not> raises qs a) \<and> st' = add_deltas qs as st"
  using assms
proof (induction as arbitrary: st)
  case Nil
  then show ?case by (auto simp add: add_deltas_def)
next
  case (Cons a as)
  have d: "dom (skill_scores (add_state st (delta qs a))) = TRAITS"
    using Cons.prems by simp
  show ?case
  proof (cases "step qs a initial_state")
    case (Inl x)
    then show ?thesis
      by (simp add: step_delta [OF Cons.prems] bind_exn_def raises_def)
  next
    case (Inr d')
    then show ?thesis
      using Cons.IH [OF d]
      by (simp add: step_delta [OF Cons.prems] bind_exn_def raises_def add_deltas_def)
  qed
qed

lemma dom_add_deltas [simp]: "dom (skill_scores (add_deltas qs as st)) = dom (skill_scores st)"
  by (induction as arbitrary: st) (simp_all add: add_deltas_def)

lemma details_add_deltas:
  "detailed_results (add_deltas qs as st) =
     detailed_results st @ concat (map (\<lambda>a. detailed_results (delta qs a)) as)"
  by (induction as arbitrary: st) (simp_all add: add_deltas_def add_state_def)

lemma forget_add_state: "forget (add_state (forget acc) d) = forget (add_state acc d)"
  by (simp add: forget_def add_state_def)

lemma forget_add_deltas:
  "forget (add_deltas qs as st) =
     fold (\<lambda>a acc. forget (add_state acc (delta qs a))) as (forget st)"
proof (induction as arbitrary: st)
  case Nil
  then show ?case by (simp add: add_deltas_def)
next
  case (Cons a as)
  have "forget (add_deltas qs (a # as) st) = forget (add_deltas qs as (add_state st (delta qs a)))"
    by (simp add: add_deltas_def)
  also have "\<dots> = fold (\<lambda>a acc. forget (add_state acc (delta qs a))) as
                     (forget (add_state st (delta qs a)))"
    by (rule Cons.IH)
  finally show ?case by (simp add: forget_add_state)
qed

lemma forget_add_commute:
  "forget (add_state (forget (add_state acc d1)) d2) =
   forget (add_state (forget (add_state acc d2)) d1)"
  by (simp add: forget_def add_state_def shift_shift add.commute add.left_commute)

lemma forget_add_deltas_perm:
  assumes "mset as = mset bs"
  shows "forget (add_deltas qs as st) = forget (add_deltas qs bs st)"
proof -
  have "fold (\<lambda>a acc. forget (add_state acc (delta qs a))) as =
        fold (\<lambda>a acc. forget (add_state acc (delta qs a))) bs"
    by (rule fold_multiset_equiv) (auto simp: fun_eq_iff forget_add_commute assms)
  then show ?thesis by (simp add: forget_add_deltas)
qed

lemma shift_single:
  "sk k = Some v \<Longrightarrow> shift sk (\<lambda>j. if j = k then n else 0) = sk(k \<mapsto> v + n)"
  by (auto simp: shift_def fun_eq_iff split: option.splits)

lemma time_adj_fast:
  "t < 15000 \<Longrightarrow> time_adj t =
     (\<lambda>j. ((if j = ''BS'' then 5 else 0) + (if j = ''ER'' then - 5 else 0)) +
          (if j = ''SL'' then - 5 else 0))"
  by (rule ext) (simp add: time_adj_def)

lemma time_adj_slow:
  "\<not> t < 15000 \<Longrightarrow> t > 60000 \<Longrightarrow> time_adj t =
     (\<lambda>j. (if j = ''TA'' then - 5 else 0) + (if j = ''BS'' then - 10 else 0))"
  by (rule ext) (simp add: time_adj_def)

lemma time_adj_optimal:
  "\<not> t < 15000 \<Longrightarrow> \<not> t > 60000 \<Longrightarrow> 30000 \<le> t \<Longrightarrow>
   time_adj t = (\<lambda>j. if j = ''BS'' then 5 else 0)"
  by (rule ext) (simp add: time_adj_def)

lemma time_adj_gap:
  "\<not> t < 15000 \<Longrightarrow> \<not> t > 60000 \<Longrightarrow> \<not> 30000 \<le> t \<Longrightarrow> time_adj t = (\<lambda>j. 0)"
  by (rule ext) (simp add: time_adj_def)

lemma time_adj_explicit:
  assumes "dom sk = TRAITS"
  shows "shift sk (time_adj t) =
     (if t < 15000 then
        sk(''BS'' \<mapsto> the (sk ''BS'') + 5, ''ER'' \<mapsto> the (sk ''ER'') - 5,
           ''SL'' \<mapsto> the (sk ''SL'') - 5)
      else if t > 60000 then sk(''TA'' \<mapsto> the (sk ''TA'') - 5, ''BS'' \<mapsto> the (sk ''BS'') - 10)
      else if 30000 \<le> t then sk(''BS'' \<mapsto> the (sk ''BS'') + 5)
      else sk)"
proof -
  have "TRAITS \<subseteq> dom sk"
    using assms by simp
  then have k: "''BS'' \<in> dom sk" "''ER'' \<in> dom sk" "''SL'' \<in> dom sk" "''TA'' \<in> dom sk"
    by (simp_all add: TRAITS_def)
  obtain b e s a where v: "sk ''BS'' = Some b" "sk ''ER'' = Some e" "sk ''SL'' = Some s"
      "sk ''TA'' = Some a"
    using k by blast
  have fast: "shift (shift (shift sk (\<lambda>j. if j = ''BS'' then 5 else 0))
                (\<lambda>j. if j = ''ER'' then - 5 else 0)) (\<lambda>j. if j = ''SL'' then - 5 else 0) =
              sk(''BS'' \<mapsto> b + 5, ''ER'' \<mapsto> e - 5, ''SL'' \<mapsto> s - 5)"
    by (simp add: shift_single [where v = b] shift_single [where v = e]
        shift_single [where v = s] v)
  have slow: "shift (shift sk (\<lambda>j. if j = ''TA'' then - 5 else 0))
                (\<lambda>j. if j = ''BS'' then - 10 else 0) =
              sk(''TA'' \<mapsto> a - 5, ''BS'' \<mapsto> b - 10)"
    by (simp add: shift_single [where v = a] shift_single [where v = b] v)
  have optimal: "shift sk (\<lambda>j. if j = ''BS'' then 5 else 0) = sk(''BS'' \<mapsto> b + 5)"
    by (simp add: shift_single [where v = b] v)
  consider "t < 15000" | "\<not> t < 15000" "t > 60000"
    | "\<not> t < 15000" "\<not> t > 60000" "30000 \<le> t"
    | "\<not> t < 15000" "\<not> t > 60000" "\<not> 30000 \<le> t"
    by blast
  then show ?thesis
  proof cases
    case 1
    have "shift sk (time_adj t) = sk(''BS'' \<mapsto> b + 5, ''ER'' \<mapsto> e - 5, ''SL'' \<mapsto> s - 5)"
      unfolding time_adj_fast [OF 1] shift_shift [symmetric] by (rule fast)
    then show ?thesis using 1 by (simp add: v)
  next
    case 2
    have "shift sk (time_adj t) = sk(''TA'' \<mapsto> a - 5, ''BS'' \<mapsto> b - 10)"
      unfolding time_adj_slow [OF 2] shift_shift [symmetric] by (rule slow)
    then show ?thesis using 2 by (simp add: v)
  next
    case 3
    have "shift sk (time_adj t) = sk(''BS'' \<mapsto> b + 5)"
      unfolding time_adj_optimal [OF 3] by (rule optimal)
    then show ?thesis using 3 by (simp add: v)
  next
    case 4
    have "shift sk (time_adj t) = sk"
      unfolding time_adj_gap [OF 4] by simp
    then show ?thesis using 4 by simp
  qed
qed

lemma example_lookup:
  "questionId (example_answer t) = Some ''q1''"
  "find_question [example_question] (example_answer t) = Inr (Some example_question)"
  "selectedOptionIndex (example_answer t) = Some (JInt 0)"
  "timeTakenMs (example_answer t) = Some (JInt t)"
  "(0::int) \<le> 0" "0 < int (length (q_options example_question))"
  by (simp_all add: example_answer_def example_question_def)

lemma example_scores:
  "add_option_score (o_score (q_options example_question ! nat 0)) (skill_scores initial_state, 0) =
     Inr ([''TA'' \<mapsto> 10, ''SL'' \<mapsto> 0, ''ER'' \<mapsto> 0, ''BP'' \<mapsto> 0, ''BS'' \<mapsto> 0], 10)"
  by (auto simp add: example_question_def initial_skill_scores dict_add_def bind_exn_def)






lemma find_question_unmatched:
  "questionId a = Some i \<Longrightarrow> i \<notin> q_id ` set qs \<Longrightarrow> find_question qs a = Inr None"
  by (induction qs) auto

lemma run_loop_append:
  "run_loop qs (xs @ ys) st = bind_exn (run_loop qs xs st) (run_loop qs ys)"
  by (induction xs arbitrary: st) (auto simp: bind_exn_def split: sum.splits)



lemma TRAITS_mem:
  "''TA'' \<in> TRAITS" "''SL'' \<in> TRAITS" "''ER'' \<in> TRAITS" "''BP'' \<in> TRAITS" "''BS'' \<in> TRAITS"
  by (simp_all add: TRAITS_def)

lemma TRAITS_cases:
  "k \<in> TRAITS \<Longrightarrow> k = ''TA'' \<or> k = ''SL'' \<or> k = ''ER'' \<or> k = ''BP'' \<or> k = ''BS''"
  by (simp add: TRAITS_def)

lemma skill_keys_TRAITS: "set skill_keys = TRAITS" "distinct skill_keys"
  by (auto simp add: skill_keys_def TRAITS_def)

lemma dom_lookup: "dom sk = TRAITS \<Longrightarrow> k \<in> TRAITS \<Longrightarrow> \<exists>v. sk k = Some v"
  by blast

lemma run_loop_dom:
  assumes "run_loop qs as initial_state = Inr st"
  shows "dom (skill_scores st) = TRAITS"
proof -
  from assms have "st = add_deltas qs as initial_state"
    by (simp add: run_loop_Inr_iff [OF dom_initial])
  then show ?thesis
    by (simp add: dom_initial)
qed

lemma norm_value_range: "norm_value rnd base key v = Inr w \<Longrightarrow> 0 \<le> w \<and> w \<le> 100"
  by (auto simp add: norm_value_def split: if_splits sum.splits)

lemma normalize_key_eq:
  "sk key = Some v \<Longrightarrow>
   normalize_key rnd base key sk =
     (case norm_value rnd base key v of Inl x \<Rightarrow> Inl x | Inr w \<Rightarrow> Inr (sk(key \<mapsto> w)))"
  by (simp add: normalize_key_def norm_value_def bind_exn_def split: sum.splits)

lemma normalize_skills_Inr:
  assumes "distinct ks" and "set ks \<subseteq> dom sk" and "normalize_skills rnd base ks sk = Inr sk'"
  shows "dom sk' = dom sk \<and>
     (\<forall>k\<in>set ks. \<exists>v w. sk k = Some v \<and> norm_value rnd base k v = Inr w \<and> sk' k = Some w) \<and>
     (\<forall>k. k \<notin> set ks \<longrightarrow> sk' k = sk k)"
  using assms
proof (induction ks arbitrary: sk)
  case Nil
  then show ?case by simp
next
  case (Cons key keys)
  from Cons.prems(2) obtain v where v: "sk key = Some v"
    by auto
  from Cons.prems(3) obtain w where w: "norm_value rnd base key v = Inr w"
    and rest: "normalize_skills rnd base keys (sk(key \<mapsto> w)) = Inr sk'"
    by (auto simp add: normalize_key_eq [where sk = sk and key = key, OF v] bind_exn_def split: sum.splits)
  have d: "distinct keys" and nk: "key \<notin> set keys"
    using Cons.prems(1) by simp_all
  have sub: "set keys \<subseteq> dom (sk(key \<mapsto> w))"
    using Cons.prems(2) by auto
  note ih = Cons.IH [of "sk(key \<mapsto> w)", OF d sub rest]
  have dom: "dom sk' = dom sk"
    using ih v by (auto split: if_splits)
  have here: "sk' key = Some w"
    using ih nk by simp
  have later: "\<exists>v w. sk k = Some v \<and> norm_value rnd base k v = Inr w \<and> sk' k = Some w"
    if "k \<in> set keys" for k
  proof -
    from that nk have "k \<noteq> key"
      by blast
    with ih that show ?thesis
      by auto
  qed
  have other: "sk' k = sk k" if "k \<notin> set (key # keys)" for k
    using ih that by auto
  show ?case
    using dom here later other v w by auto
qed

lemma normalize_skills_succeeds:
  assumes "distinct ks"
    and "\<forall>k\<in>set ks. \<exists>v w. sk k = Some v \<and> norm_value rnd base k v = Inr w"
  shows "\<exists>sk'. normalize_skills rnd base ks sk = Inr sk'"
  using assms
proof (induction ks arbitrary: sk)
  case Nil
  then show ?case by simp
next
  case (Cons key keys)
  from Cons.prems(2) obtain v w where v: "sk key = Some v" and w: "norm_value rnd base key v = Inr w"
    by auto
  have d: "distinct keys" and nk: "key \<notin> set keys"
    using Cons.prems(1) by simp_all
  have "\<forall>k\<in>set keys. \<exists>v' w'. (sk(key \<mapsto> w)) k = Some v' \<and> norm_value rnd base k v' = Inr w'"
    using Cons.prems(2) nk by auto
  from Cons.IH [of "sk(key \<mapsto> w)", OF d this]
  obtain sk' where "normalize_skills rnd base keys (sk(key \<mapsto> w)) = Inr sk'"
    by blast
  then show ?case
    by (simp add: normalize_key_eq [where sk = sk and key = key, OF v] w bind_exn_def)
qed

lemma score_questions_Report:
  assumes "score_questions rnd e job_key jq answers = Report r"
  obtains qs st where "jq = Some qs" "qs \<noteq> []" "run_loop qs answers initial_state = Inr st"
    "build_report rnd e job_key qs st = Inr r"
  using assms
  by (auto simp add: score_questions_def bind_exn_def split: option.splits if_splits sum.splits)

lemma build_report_Inr:
  assumes "build_report rnd e job_key qs st = Inr r"
  obtains n sk where "rnd (total_raw_score st) (MAX_POSSIBLE_SCORE qs) = Inr n"
    "normalize_skills rnd (max_possible_trait_score_base st) skill_keys (skill_scores st) = Inr sk"
    "totalScore r = max 0 (min 100 n)" "skillScores r = sk" "behavioralSummary r = summary st"
    "detailedResults r = detailed_results st"
  using assms
  by (auto simp add: build_report_def bind_exn_def split: sum.splits)

lemma build_report_succeeds:
  assumes "rnd (total_raw_score st) (MAX_POSSIBLE_SCORE qs) = Inr n"
    and "normalize_skills rnd (max_possible_trait_score_base st) skill_keys (skill_scores st) = Inr sk"
  shows "\<exists>r. build_report rnd e job_key qs st = Inr r"
  using assms by (simp add: build_report_def bind_exn_def)

lemma example_run:
  "run_loop [example_question] [example_answer 45000] initial_state = Inr example_final"
proof -
  let ?o = "\<lparr>o_text = ''yes'', o_score = [(''TA'', 10)]\<rparr>"
  let ?st1 = "initial_state\<lparr>max_possible_trait_score_base := 10\<rparr>"
  have pf: "parse_fields (example_answer 45000) = Inr (Some (0, 45000))"
    by (simp add: parse_fields_def example_answer_def subscript_def bind_exn_def)
  have fq: "find_question [example_question] (example_answer 45000) = Inr (Some example_question)"
    by (simp add: example_question_def example_answer_def)
  have qi: "questionId (example_answer 45000) = Some ''q1''"
    by (simp add: example_answer_def)
  have qo: "q_options example_question = [?o]"
    by (simp add: example_question_def)
  have st: "step [example_question] (example_answer 45000) initial_state =
      process_answer ''q1'' example_question ?o 45000 ?st1"
    by (simp add: step_def fq pf bind_exn_def subscript_def Let_def qi qo
        del: find_question.simps)
  have k: "TRAITS \<subseteq> dom (skill_scores ?st1)"
    by (simp add: dom_initial)
  have sc: "fst ` set (o_score ?o) \<subseteq> dom (skill_scores ?st1)"
    by (simp add: dom_initial TRAITS_mem)
  have sk: "shift (skill_scores initial_state) (\<lambda>k. key_sum [(''TA'', 10)] k + time_adj 45000 k) =
      [''TA'' \<mapsto> 10, ''SL'' \<mapsto> 0, ''ER'' \<mapsto> 0, ''BP'' \<mapsto> 0, ''BS'' \<mapsto> 5]"
    by (rule ext) (simp add: shift_def initial_skill_scores key_sum_def time_adj_def)
  have fin: "?st1\<lparr>total_raw_score := total_raw_score ?st1 + (sum_list (map snd (o_score ?o)) + time_score 45000),
          skill_scores := shift (skill_scores ?st1) (\<lambda>k. key_sum (o_score ?o) k + time_adj 45000 k),
          summary := count_response 45000
             ((summary ?st1)\<lparr>totalTimeMs := totalTimeMs (summary ?st1) + 45000\<rparr>),
          detailed_results := detailed_results ?st1 @ [mk_detail ''q1'' example_question ?o 45000]\<rparr> =
        example_final"
    by (rule loop_state.equality)
       (simp_all add: sk example_final_def time_score_def count_response_def mk_detail_def
          time_label_def example_question_def)
  have "process_answer ''q1'' example_question ?o 45000 ?st1 = Inr example_final"
    unfolding process_answer_eq [OF k] fin
    using sc by simp
  with st show ?thesis
    by (simp add: bind_exn_def)
qed

lemma initial_skill_lookup: "k \<in> TRAITS \<Longrightarrow> skill_scores initial_state k = Some 0"
  using TRAITS_cases [of k] by (auto simp add: initial_skill_scores)

lemma py_round_pct_zero: "b \<noteq> 0 \<Longrightarrow> py_round_pct 0 b = Inr 0"
  by (simp add: py_round_pct_def nearest_double_def round_half_even_def)

lemma py_round_pct_examples:
  "py_round_pct 15 15 = Inr 100" "py_round_pct 10 10 = Inr 100"
  by code_simp+

lemma example_report:
  "score_questions py_round_pct (example_env None) ''dev'' (Some [example_question])
     [example_answer 45000] =
   (case build_report py_round_pct (example_env None) ''dev'' [example_question] example_final of
      Inl x \<Rightarrow> Raises x | Inr r \<Rightarrow> Report r)"
  by (simp add: score_questions_def example_run bind_exn_def del: run_loop.simps)

lemma example_report_fields:
  "\<exists>r. score_questions py_round_pct (example_env None) ''dev'' (Some [example_question])
          [example_answer 45000] = Report r \<and>
        totalScore r = 100 \<and> skillScores r ''TA'' = Some 100 \<and> skillScores r ''BS'' = Some 5 \<and>
        behavioralSummary r = summary example_final \<and>
        detailedResults r = detailed_results example_final"
  by (simp add: example_report build_report_def MAX_POSSIBLE_SCORE_def skill_keys_def
      normalize_key_def bind_exn_def example_final_def py_round_pct_examples py_round_pct_zero)

lemma consistent_initial: "consistent initial_state"
  by (simp add: consistent_def)

lemma consistent_add_state: "consistent st \<Longrightarrow> consistent d \<Longrightarrow> consistent (add_state st d)"
  by (simp add: consistent_def add_state_def)

lemma consistent_delta: "consistent (delta qs a)"
proof (cases "step qs a initial_state")
  case (Inl x)
  then show ?thesis
    by (simp add: delta_def consistent_initial)
next
  case (Inr d)
  from Inr have "consistent d"
    by (auto simp add: step_def bind_exn_def process_answer_eq dom_initial Let_def consistent_def
        count_response_def mk_detail_def
        split: sum.splits option.splits prod.splits if_splits)
  with Inr show ?thesis
    by (simp add: delta_def)
qed

lemma consistent_add_deltas: "consistent st \<Longrightarrow> consistent (add_deltas qs as st)"
proof (induction as arbitrary: st)
  case Nil
  then show ?case by (simp add: add_deltas_def)
next
  case (Cons a as)
  have "consistent (add_state st (delta qs a))"
    using Cons.prems consistent_delta by (rule consistent_add_state)
  from Cons.IH [OF this] show ?case
    by (simp add: add_deltas_def)
qed

section \<open>The claims\<close>

text \<open>
  C1. An answer that passes the question lookup, the integer parsing and the bounds check,
  and whose option scores were added without error (\<open>sk\<close> and \<open>pts\<close> are the skill
  scores and the question points after lines 106-109), is classified by its time \<open>t\<close>
  alone: below 15000 it is too fast (time score -20, BS +5, ER -5, SL -5, one more fast
  response); above 60000 it is too slow (-20, TA -5, BS -10, one more slow response);
  from 30000 to 60000 it is optimal (+5, BS +5, one more optimal response); from 15000
  to 29999 it keeps the label Optimal with time score 0, no counter and no side
  adjustment. The witness evaluates the boundaries 14999, 15000, 30000, 60000, 60001.
\<close>

theorem time_behavior_classification:
  fixes qs a st q i t sk pts qid
  defines "entry \<equiv> \<lambda>label.
     \<lparr>d_questionId = qid, d_prompt = q_prompt q,
      d_chosenOptionText = o_text (q_options q ! nat i),
      d_rawScoreImpact = o_score (q_options q ! nat i),
      d_timeTakenMs = t, d_timeBehavior = label, d_traitMap = TRAIT_MAP\<rparr>"
  defines "st1 \<equiv> st\<lparr>max_possible_trait_score_base := max_possible_trait_score_base st + 10\<rparr>"
  defines "timed \<equiv> (summary st)\<lparr>totalTimeMs := totalTimeMs (summary st) + t\<rparr>"
  assumes lookup: "questionId a = Some qid" "find_question qs a = Inr (Some q)"
    and parsed: "selectedOptionIndex a = Some (JInt i)" "timeTakenMs a = Some (JInt t)"
    and bounds: "0 \<le> i" "i < int (length (q_options q))"
    and keys: "dom (skill_scores st) = TRAITS"
    and scores: "add_option_score (o_score (q_options q ! nat i)) (skill_scores st, 0) = Inr (sk, pts)"
  shows
    "(t < 15000 \<longrightarrow>
        step qs a st = Inr (st1\<lparr>
          total_raw_score := total_raw_score st + (pts + (- 20)),
          skill_scores := sk(''BS'' \<mapsto> the (sk ''BS'') + 5, ''ER'' \<mapsto> the (sk ''ER'') - 5,
                             ''SL'' \<mapsto> the (sk ''SL'') - 5),
          summary := timed\<lparr>fastResponses := fastResponses (summary st) + 1\<rparr>,
          detailed_results :=
            detailed_results st @ [entry ''Too Fast (Lack of Contemplation)'']\<rparr>)) \<and>
     (t > 60000 \<longrightarrow>
        step qs a st = Inr (st1\<lparr>
          total_raw_score := total_raw_score st + (pts + (- 20)),
          skill_scores := sk(''TA'' \<mapsto> the (sk ''TA'') - 5, ''BS'' \<mapsto> the (sk ''BS'') - 10),
          summary := timed\<lparr>slowResponses := slowResponses (summary st) + 1\<rparr>,
          detailed_results := detailed_results st @ [entry ''Too Slow (Inefficiency)'']\<rparr>)) \<and>
     (30000 \<le> t \<and> t \<le> 60000 \<longrightarrow>
        step qs a st = Inr (st1\<lparr>
          total_raw_score := total_raw_score st + (pts + 5),
          skill_scores := sk(''BS'' \<mapsto> the (sk ''BS'') + 5),
          summary := timed\<lparr>optimalResponses := optimalResponses (summary st) + 1\<rparr>,
          detailed_results := detailed_results st @ [entry ''Optimal'']\<rparr>)) \<and>
     (15000 \<le> t \<and> t < 30000 \<longrightarrow>
        step qs a st = Inr (st1\<lparr>
          total_raw_score := total_raw_score st + (pts + 0),
          skill_scores := sk,
          summary := timed,
          detailed_results := detailed_results st @ [entry ''Optimal'']\<rparr>))"
proof -
  let ?sc = "o_score (q_options q ! nat i)"
  from scores have sc: "fst ` set ?sc \<subseteq> dom (skill_scores st)"
    and sk: "sk = shift (skill_scores st) (key_sum ?sc)"
    and pts: "pts = sum_list (map snd ?sc)"
    by (auto simp add: add_option_score_eq split: if_splits)
  have dsk: "dom sk = TRAITS"
    by (simp add: sk keys)
  have pf: "parse_fields a = Inr (Some (i, t))"
    by (simp add: parse_fields_def parsed subscript_def bind_exn_def)
  have "step qs a st =
      Inr (st1\<lparr>total_raw_score := total_raw_score st + (pts + time_score t),
              skill_scores := shift sk (time_adj t),
              summary := count_response t timed,
              detailed_results := detailed_results st @ [entry (time_label t)]\<rparr>)"
    using bounds sc
    by (simp add: step_def lookup pf bind_exn_def subscript_def Let_def process_answer_eq keys
        st1_def timed_def entry_def mk_detail_def sk pts shift_shift)
  note eq = this
  have fast: "t < 15000 \<Longrightarrow> ?thesis"
    by (simp add: eq time_adj_explicit [OF dsk] time_score_def count_response_def time_label_def
        timed_def)
  have slow: "t > 60000 \<Longrightarrow> ?thesis"
    by (simp add: eq time_adj_explicit [OF dsk] time_score_def count_response_def time_label_def
        timed_def)
  have optimal: "30000 \<le> t \<Longrightarrow> t \<le> 60000 \<Longrightarrow> ?thesis"
    by (simp add: eq time_adj_explicit [OF dsk] time_score_def count_response_def time_label_def
        timed_def)
  have gap: "15000 \<le> t \<Longrightarrow> t < 30000 \<Longrightarrow> ?thesis"
    by (simp add: eq time_adj_explicit [OF dsk] time_score_def count_response_def time_label_def
        timed_def)
  consider "t < 15000" | "15000 \<le> t" "t < 30000" | "30000 \<le> t" "t \<le> 60000" | "t > 60000"
    by linarith
  then show ?thesis
  proof cases
    case 1
    then show ?thesis by (rule fast)
  next
    case 2
    then show ?thesis by (rule gap)
  next
    case 3
    then show ?thesis by (rule optimal)
  next
    case 4
    then show ?thesis by (rule slow)
  qed
qed

theorem time_behavior_classification_witness:
  "(case step [example_question] (example_answer 14999) initial_state of
      Inl x \<Rightarrow> False
    | Inr st \<Rightarrow> total_raw_score st = - 10 \<and> fastResponses (summary st) = 1 \<and>
        skill_scores st ''BS'' = Some 5 \<and> skill_scores st ''ER'' = Some (- 5) \<and>
        skill_scores st ''SL'' = Some (- 5) \<and> skill_scores st ''TA'' = Some 10 \<and>
        map d_timeBehavior (detailed_results st) = [''Too Fast (Lack of Contemplation)'']) \<and>
   (case step [example_question] (example_answer 15000) initial_state of
      Inl x \<Rightarrow> False
    | Inr st \<Rightarrow> total_raw_score st = 10 \<and> fastResponses (summary st) = 0 \<and>
        slowResponses (summary st) = 0 \<and> optimalResponses (summary st) = 0 \<and>
        skill_scores st ''BS'' = Some 0 \<and> skill_scores st ''ER'' = Some 0 \<and>
        map d_timeBehavior (detailed_results st) = [''Optimal'']) \<and>
   (case step [example_question] (example_answer 30000) initial_state of
      Inl x \<Rightarrow> False
    | Inr st \<Rightarrow> total_raw_score st = 15 \<and> optimalResponses (summary st) = 1 \<and>
        skill_scores st ''BS'' = Some 5 \<and>
        map d_timeBehavior (detailed_results st) = [''Optimal'']) \<and>
   (case step [example_question] (example_answer 60000) initial_state of
      Inl x \<Rightarrow> False
    | Inr st \<Rightarrow> total_raw_score st = 15 \<and> optimalResponses (summary st) = 1 \<and>
        skill_scores st ''BS'' = Some 5 \<and>
        map d_timeBehavior (detailed_results st) = [''Optimal'']) \<and>
   (case step [example_question] (example_answer 60001) initial_state of
      Inl x \<Rightarrow> False
    | Inr st \<Rightarrow> total_raw_score st = - 10 \<and> slowResponses (summary st) = 1 \<and>
        skill_scores st ''BS'' = Some (- 10) \<and> skill_scores st ''TA'' = Some 5 \<and>
        map d_timeBehavior (detailed_results st) = [''Too Slow (Inefficiency)''])"
proof -
  note c = time_behavior_classification [OF example_lookup dom_initial example_scores]
  show ?thesis
    using c [of 14999] c [of 15000] c [of 30000] c [of 60000] c [of 60001]
    by simp
qed

text \<open>
  C6. An answer whose \<^verbatim>\<open>questionId\<close> is the id of no question of the set leaves every
  variable of the loop as it was, the trait base included; the loop and the whole
  result are the same with the answer and without it, wherever it stands in the list.
\<close>

theorem unmatched_answer_contributes_nothing:
  assumes "questionId a = Some i" and "i \<notin> q_id ` set qs"
  shows "step qs a st = Inr st \<and>
         run_loop qs (xs @ a # ys) st = run_loop qs (xs @ ys) st \<and>
         score_questions rnd e job_key (Some qs) (xs @ a # ys) =
           score_questions rnd e job_key (Some qs) (xs @ ys)"
proof -
  have s: "step qs a s = Inr s" for s
    using assms by (simp add: step_def find_question_unmatched bind_exn_def)
  have r: "run_loop qs (xs @ a # ys) s = run_loop qs (xs @ ys) s" for s
    by (simp add: run_loop_append s bind_exn_def split: sum.splits)
  show ?thesis
    by (simp add: s r score_questions_def)
qed

theorem unmatched_answer_contributes_nothing_witness:
  "step [example_question]
     \<lparr>questionId = Some ''q9'', selectedOptionIndex = Some (JInt 0), timeTakenMs = Some (JInt 40000)\<rparr>
     initial_state = Inr initial_state \<and>
   score_questions py_round_pct (example_env None) ''dev'' (Some [example_question])
     ([example_answer 45000] @
      \<lparr>questionId = Some ''q9'', selectedOptionIndex = Some (JInt 0),
        timeTakenMs = Some (JInt 40000)\<rparr> # []) =
   score_questions py_round_pct (example_env None) ''dev'' (Some [example_question])
     ([example_answer 45000] @ [])"
proof -
  let ?a = "\<lparr>questionId = Some ''q9'', selectedOptionIndex = Some (JInt 0),
              timeTakenMs = Some (JInt 40000)\<rparr>"
  have h1: "questionId ?a = Some ''q9''"
    by simp
  have h2: "''q9'' \<notin> q_id ` set [example_question]"
    by (simp add: example_question_def)
  show ?thesis
    using unmatched_answer_contributes_nothing [OF h1 h2, of initial_state "[example_answer 45000]"
        "[]" py_round_pct "example_env None" "''dev''"]
    by simp
qed

text \<open>
  C9. When the session's test id is a key of \<^verbatim>\<open>GENERATED_TESTS\<close>, the scoring runs on the
  question set stored with that generated test, whatever \<^verbatim>\<open>JOB_PROFILES\<close> holds for the
  job key; otherwise, when the job key names a job profile, on that profile's
  questions; and when neither is the case the result is \<^verbatim>\<open>NotFound\<close>.
\<close>

theorem question_set_resolution:
  "(\<forall>t g. test_id (the_session e) = Some t \<and> GENERATED_TESTS e t = Some g \<longrightarrow>
      psychology_predictor rnd e job_key answers =
        score_questions rnd e job_key (Some (questions g)) answers) \<and>
   (\<forall>p. (\<forall>t. test_id (the_session e) = Some t \<longrightarrow> GENERATED_TESTS e t = None) \<and>
      JOB_PROFILES (ASSESSMENT_DATA e) job_key = Some p \<longrightarrow>
      psychology_predictor rnd e job_key answers =
        score_questions rnd e job_key (Some (profile_questions p)) answers) \<and>
   ((\<forall>t. test_id (the_session e) = Some t \<longrightarrow> GENERATED_TESTS e t = None) \<and>
      JOB_PROFILES (ASSESSMENT_DATA e) job_key = None \<longrightarrow>
      psychology_predictor rnd e job_key answers = NotFound)"
  by (auto simp add: psychology_predictor_def resolve_job_questions_def score_questions_def
      split: option.splits)

theorem question_set_resolution_witness:
  "psychology_predictor py_round_pct (example_env (Some ''abc123'')) ''dev'' [example_answer 45000] =
     score_questions py_round_pct (example_env (Some ''abc123'')) ''dev'' (Some [example_question])
       [example_answer 45000] \<and>
   psychology_predictor py_round_pct (example_env (Some ''zzz'')) ''dev'' [example_answer 45000] =
     score_questions py_round_pct (example_env (Some ''zzz'')) ''dev'' (Some [other_question])
       [example_answer 45000] \<and>
   psychology_predictor py_round_pct (example_env None) ''dev'' [example_answer 45000] =
     score_questions py_round_pct (example_env None) ''dev'' (Some [other_question])
       [example_answer 45000] \<and>
   psychology_predictor py_round_pct (example_env None) ''ops'' [example_answer 45000] = NotFound"
proof -
  note r = question_set_resolution [where rnd = py_round_pct and answers = "[example_answer 45000]"]
  have g: "test_id (the_session (example_env (Some ''abc123''))) = Some ''abc123'' \<and>
      GENERATED_TESTS (example_env (Some ''abc123'')) ''abc123'' =
        Some \<lparr>role = ''dev'', questions = [example_question]\<rparr>"
    by (simp add: example_env_def)
  have n1: "\<forall>t. test_id (the_session (example_env (Some ''zzz''))) = Some t \<longrightarrow>
      GENERATED_TESTS (example_env (Some ''zzz'')) t = None"
    by (simp add: example_env_def)
  have n2: "\<forall>t. test_id (the_session (example_env None)) = Some t \<longrightarrow>
      GENERATED_TESTS (example_env None) t = None"
    by (simp add: example_env_def)
  have p: "JOB_PROFILES (ASSESSMENT_DATA (example_env t)) ''dev'' =
      Some \<lparr>skills_required = [''TA''], profile_questions = [other_question]\<rparr>"
      "JOB_PROFILES (ASSESSMENT_DATA (example_env t)) ''ops'' = None" for t
    by (simp_all add: example_env_def)
  from r [of "example_env (Some ''abc123'')" "''dev''"] g
  have c1: "psychology_predictor py_round_pct (example_env (Some ''abc123'')) ''dev''
       [example_answer 45000] =
     score_questions py_round_pct (example_env (Some ''abc123'')) ''dev'' (Some [example_question])
       [example_answer 45000]"
    by fastforce
  from r [of "example_env (Some ''zzz'')" "''dev''"] n1 p(1)
  have c2: "psychology_predictor py_round_pct (example_env (Some ''zzz'')) ''dev''
       [example_answer 45000] =
     score_questions py_round_pct (example_env (Some ''zzz'')) ''dev'' (Some [other_question])
       [example_answer 45000]"
    by fastforce
  from r [of "example_env None" "''dev''"] n2 p(1)
  have c3: "psychology_predictor py_round_pct (example_env None) ''dev'' [example_answer 45000] =
     score_questions py_round_pct (example_env None) ''dev'' (Some [other_question])
       [example_answer 45000]"
    by fastforce
  from r [of "example_env None" "''ops''"] n2 p(2)
  have c4: "psychology_predictor py_round_pct (example_env None) ''ops'' [example_answer 45000] =
     NotFound"
    by fastforce
  show ?thesis
    using c1 c2 c3 c4 by blast
qed




text \<open>
  C3. For a non-empty question set whose loop over the answers ends in the state \<open>st\<close>:
  \<^verbatim>\<open>MAX_POSSIBLE_SCORE\<close> is 15 times the number of questions, whatever the answers were. In
  every report returned, \<^verbatim>\<open>totalScore\<close> is \<^verbatim>\<open>round((total_raw_score / MAX_POSSIBLE_SCORE) * 100)\<close>
  clamped to 0..100; the score of each of TA, SL, ER, BP is the rounded ratio of its raw
  total to \<^verbatim>\<open>max_possible_trait_score_base\<close>, clamped to 0..100, when that base is positive,
  and 0 otherwise; the BS score is the raw BS total clamped to 0..100, with no division.
  A report is returned exactly when these roundings give a value, that is, when no
  floating-point operation in them overflows.
\<close>

theorem normalisation_after_loop:
  assumes nonempty: "qs \<noteq> []"
    and loop: "run_loop qs answers initial_state = Inr st"
  shows "MAX_POSSIBLE_SCORE qs = int (length qs) * 15 \<and>
     (\<forall>r. score_questions rnd e job_key (Some qs) answers = Report r \<longrightarrow>
        (\<exists>n. rnd (total_raw_score st) (int (length qs) * 15) = Inr n \<and>
             totalScore r = max 0 (min 100 n)) \<and>
        (\<forall>k \<in> {''TA'', ''SL'', ''ER'', ''BP''}. \<exists>v. skill_scores st k = Some v \<and>
           (if max_possible_trait_score_base st > 0
            then \<exists>n. rnd v (max_possible_trait_score_base st) = Inr n \<and>
                   skillScores r k = Some (max 0 (min 100 n))
            else skillScores r k = Some 0)) \<and>
        (\<exists>v. skill_scores st ''BS'' = Some v \<and> skillScores r ''BS'' = Some (max 0 (min 100 v)))) \<and>
     ((\<exists>r. score_questions rnd e job_key (Some qs) answers = Report r) \<longleftrightarrow>
        (\<exists>n. rnd (total_raw_score st) (int (length qs) * 15) = Inr n) \<and>
        (max_possible_trait_score_base st > 0 \<longrightarrow>
           (\<forall>k \<in> {''TA'', ''SL'', ''ER'', ''BP''}. \<exists>v n. skill_scores st k = Some v \<and>
              rnd v (max_possible_trait_score_base st) = Inr n)))"
proof -
  let ?base = "max_possible_trait_score_base st"
  let ?sk = "skill_scores st"
  let ?res = "score_questions rnd e job_key (Some qs) answers"
  have d: "dom ?sk = TRAITS"
    using loop by (rule run_loop_dom)
  have m: "MAX_POSSIBLE_SCORE qs = int (length qs) * 15"
    by (simp add: MAX_POSSIBLE_SCORE_def)
  have res: "?res = (case build_report rnd e job_key qs st of Inl x \<Rightarrow> Raises x | Inr r \<Rightarrow> Report r)"
    using nonempty loop by (simp add: score_questions_def bind_exn_def)
  have sub: "set skill_keys \<subseteq> dom ?sk"
    by (simp add: skill_keys_TRAITS d)
  have fields:
    "(\<exists>n. rnd (total_raw_score st) (int (length qs) * 15) = Inr n \<and>
             totalScore r = max 0 (min 100 n)) \<and>
        (\<forall>k \<in> {''TA'', ''SL'', ''ER'', ''BP''}. \<exists>v. ?sk k = Some v \<and>
           (if ?base > 0
            then \<exists>n. rnd v ?base = Inr n \<and> skillScores r k = Some (max 0 (min 100 n))
            else skillScores r k = Some 0)) \<and>
        (\<exists>v. ?sk ''BS'' = Some v \<and> skillScores r ''BS'' = Some (max 0 (min 100 v)))"
    if r: "?res = Report r" for r
  proof -
    from r res have b: "build_report rnd e job_key qs st = Inr r"
      by (simp split: sum.splits)
    from b obtain n sk where n: "rnd (total_raw_score st) (MAX_POSSIBLE_SCORE qs) = Inr n"
      and sk: "normalize_skills rnd ?base skill_keys ?sk = Inr sk"
      and tot: "totalScore r = max 0 (min 100 n)" and skr: "skillScores r = sk"
      by (rule build_report_Inr)
    note ns = normalize_skills_Inr [OF skill_keys_TRAITS(2) sub sk]
    have each: "\<exists>v w. ?sk k = Some v \<and> norm_value rnd ?base k v = Inr w \<and>
        skillScores r k = Some w" if "k \<in> TRAITS" for k
      using ns that by (simp add: skill_keys_TRAITS skr)
    have other: "\<exists>v. ?sk k = Some v \<and>
           (if ?base > 0
            then \<exists>n. rnd v ?base = Inr n \<and> skillScores r k = Some (max 0 (min 100 n))
            else skillScores r k = Some 0)"
      if kT: "k \<in> TRAITS" and kB: "k \<noteq> ''BS''" for k
      using each [OF kT] kB by (auto simp add: norm_value_def split: if_splits sum.splits)
    have bs: "\<exists>v. ?sk ''BS'' = Some v \<and> skillScores r ''BS'' = Some (max 0 (min 100 v))"
      using each [OF TRAITS_mem(5)] by (auto simp add: norm_value_def)
    have four: "\<forall>k \<in> {''TA'', ''SL'', ''ER'', ''BP''}. \<exists>v. ?sk k = Some v \<and>
           (if ?base > 0
            then \<exists>n. rnd v ?base = Inr n \<and> skillScores r k = Some (max 0 (min 100 n))
            else skillScores r k = Some 0)"
      using other [OF TRAITS_mem(1)] other [OF TRAITS_mem(2)] other [OF TRAITS_mem(3)]
        other [OF TRAITS_mem(4)]
      by simp
    have "\<exists>n. rnd (total_raw_score st) (int (length qs) * 15) = Inr n \<and>
             totalScore r = max 0 (min 100 n)"
      using n tot by (simp add: m)
    with four bs show ?thesis
      by blast
  qed
  have returns: "\<exists>r. ?res = Report r"
    if n: "rnd (total_raw_score st) (int (length qs) * 15) = Inr n"
      and sk: "?base > 0 \<Longrightarrow> \<forall>k \<in> {''TA'', ''SL'', ''ER'', ''BP''}. \<exists>v n. ?sk k = Some v \<and>
              rnd v ?base = Inr n" for n
  proof -
    have "\<exists>v w. ?sk k = Some v \<and> norm_value rnd ?base k v = Inr w" if kT: "k \<in> TRAITS" for k
    proof -
      obtain v where v: "?sk k = Some v"
        using dom_lookup [OF d kT] by blast
      show ?thesis
      proof (cases "k \<noteq> ''BS'' \<and> ?base > 0")
        case True
        with sk TRAITS_cases [OF kT] obtain v' n' where "?sk k = Some v'" "rnd v' ?base = Inr n'"
          by auto
        with True show ?thesis
          by (simp add: norm_value_def)
      next
        case False
        with v show ?thesis
          by (auto simp add: norm_value_def)
      qed
    qed
    then have "\<forall>k\<in>set skill_keys. \<exists>v w. ?sk k = Some v \<and> norm_value rnd ?base k v = Inr w"
      by (simp add: skill_keys_TRAITS)
    from normalize_skills_succeeds [OF skill_keys_TRAITS(2) this]
    obtain sk' where "normalize_skills rnd ?base skill_keys ?sk = Inr sk'"
      by blast
    with n have "\<exists>r. build_report rnd e job_key qs st = Inr r"
      by (simp add: build_report_succeeds m)
    then show ?thesis
      by (auto simp add: res)
  qed
  have forth: "(\<exists>n. rnd (total_raw_score st) (int (length qs) * 15) = Inr n) \<and>
        (?base > 0 \<longrightarrow>
           (\<forall>k \<in> {''TA'', ''SL'', ''ER'', ''BP''}. \<exists>v n. ?sk k = Some v \<and> rnd v ?base = Inr n))"
    if r: "?res = Report r" for r
    using fields [OF r] by (auto split: if_splits)
  show ?thesis
    using m fields returns forth by blast
qed

theorem normalisation_after_loop_witness:
  "[example_question] \<noteq> [] \<and>
   run_loop [example_question] [example_answer 45000] initial_state = Inr example_final \<and>
   MAX_POSSIBLE_SCORE [example_question] = 15 \<and>
   (\<exists>r. score_questions py_round_pct (example_env None) ''dev'' (Some [example_question])
          [example_answer 45000] = Report r \<and>
        totalScore r = 100 \<and> skillScores r ''TA'' = Some 100 \<and> skillScores r ''SL'' = Some 0 \<and>
        skillScores r ''ER'' = Some 0 \<and> skillScores r ''BP'' = Some 0 \<and>
        skillScores r ''BS'' = Some 5)"
proof -
  have ne: "[example_question] \<noteq> []"
    by simp
  note t = normalisation_after_loop [OF ne example_run, of py_round_pct "example_env None" "''dev''"]
  have f: "total_raw_score example_final = 15" "max_possible_trait_score_base example_final = 10"
    "skill_scores example_final ''TA'' = Some 10" "skill_scores example_final ''SL'' = Some 0"
    "skill_scores example_final ''ER'' = Some 0" "skill_scores example_final ''BP'' = Some 0"
    "skill_scores example_final ''BS'' = Some 5"
    by (simp_all add: example_final_def)
  have p: "py_round_pct 0 10 = Inr 0"
    by (simp add: py_round_pct_zero)
  from t have "\<exists>r. score_questions py_round_pct (example_env None) ''dev''
      (Some [example_question]) [example_answer 45000] = Report r"
    by (simp add: f py_round_pct_examples p)
  then obtain r where r: "score_questions py_round_pct (example_env None) ''dev''
      (Some [example_question]) [example_answer 45000] = Report r"
    by blast
  from t r have "totalScore r = 100" "skillScores r ''TA'' = Some 100"
    "skillScores r ''SL'' = Some 0" "skillScores r ''ER'' = Some 0" "skillScores r ''BP'' = Some 0"
    "skillScores r ''BS'' = Some 5"
    by (simp_all add: f py_round_pct_examples p)
  moreover have "MAX_POSSIBLE_SCORE [example_question] = 15"
    using t by simp
  ultimately show ?thesis
    using ne example_run r by blast
qed

text \<open>
  C5. In every report that the function returns, \<^verbatim>\<open>totalScore\<close> lies between 0 and 100, and
  \<^verbatim>\<open>skillScores\<close> has an entry between 0 and 100 for each of TA, SL, ER, BP, BS.
\<close>

theorem scores_between_0_and_100:
  assumes "score_questions rnd e job_key jq answers = Report r"
  shows "0 \<le> totalScore r \<and> totalScore r \<le> 100 \<and>
     (\<forall>k \<in> {''TA'', ''SL'', ''ER'', ''BP'', ''BS''}.
        \<exists>v. skillScores r k = Some v \<and> 0 \<le> v \<and> v \<le> 100)"
proof -
  from assms obtain qs st where loop: "run_loop qs answers initial_state = Inr st"
    and b: "build_report rnd e job_key qs st = Inr r"
    by (rule score_questions_Report)
  have d: "dom (skill_scores st) = TRAITS"
    using loop by (rule run_loop_dom)
  from b obtain n sk where
    sk: "normalize_skills rnd (max_possible_trait_score_base st) skill_keys (skill_scores st) = Inr sk"
    and tot: "totalScore r = max 0 (min 100 n)" and skr: "skillScores r = sk"
    by (rule build_report_Inr)
  have sub: "set skill_keys \<subseteq> dom (skill_scores st)"
    by (simp add: skill_keys_TRAITS d)
  note ns = normalize_skills_Inr [OF skill_keys_TRAITS(2) sub sk]
  have "\<exists>v. skillScores r k = Some v \<and> 0 \<le> v \<and> v \<le> 100" if "k \<in> TRAITS" for k
  proof -
    from ns that obtain v w where "norm_value rnd (max_possible_trait_score_base st) k v = Inr w"
      "skillScores r k = Some w"
      by (auto simp add: skill_keys_TRAITS skr)
    then show ?thesis
      using norm_value_range by blast
  qed
  then have "\<forall>k \<in> {''TA'', ''SL'', ''ER'', ''BP'', ''BS''}.
        \<exists>v. skillScores r k = Some v \<and> 0 \<le> v \<and> v \<le> 100"
    by (simp add: TRAITS_def)
  moreover have "0 \<le> totalScore r \<and> totalScore r \<le> 100"
    by (simp add: tot)
  ultimately show ?thesis
    by blast
qed

theorem scores_between_0_and_100_witness:
  "\<exists>r. score_questions py_round_pct (example_env None) ''dev'' (Some [example_question])
          [example_answer 45000] = Report r \<and>
        totalScore r = 100 \<and> 0 \<le> totalScore r \<and> totalScore r \<le> 100 \<and>
        (\<forall>k \<in> {''TA'', ''SL'', ''ER'', ''BP'', ''BS''}.
           \<exists>v. skillScores r k = Some v \<and> 0 \<le> v \<and> v \<le> 100)"
proof -
  from example_report_fields obtain r where
    r: "score_questions py_round_pct (example_env None) ''dev'' (Some [example_question])
          [example_answer 45000] = Report r" and t: "totalScore r = 100"
    by blast
  from scores_between_0_and_100 [OF r] r t show ?thesis
    by blast
qed

text \<open>
  C7. For a non-empty question set the empty answer list gives a report, with total
  score 0, every skill score 0, no detailed result and a summary of zeros: the rounding
  of \<^verbatim>\<open>(0 / MAX_POSSIBLE_SCORE) * 100\<close> is 0 and overflows nowhere. For any answers the
  result is \<open>NotFound\<close> exactly when the question set is absent or empty.
\<close>

theorem empty_answers_give_zero_report:
  "(qs \<noteq> [] \<longrightarrow>
      (\<exists>r. score_questions py_round_pct e job_key (Some qs) [] = Report r \<and>
         totalScore r = 0 \<and>
         (\<forall>k \<in> {''TA'', ''SL'', ''ER'', ''BP'', ''BS''}. skillScores r k = Some 0) \<and>
         detailedResults r = [] \<and>
         behavioralSummary r =
           \<lparr>fastResponses = 0, slowResponses = 0, optimalResponses = 0, totalTimeMs = 0\<rparr>)) \<and>
   (score_questions rnd e job_key jq answers = NotFound \<longleftrightarrow> jq = None \<or> jq = Some [])"
proof -
  have z: "py_round_pct 0 (MAX_POSSIBLE_SCORE qs) = Inr 0" if "qs \<noteq> []"
    using that by (simp add: py_round_pct_zero MAX_POSSIBLE_SCORE_def)
  have "\<exists>r. score_questions py_round_pct e job_key (Some qs) [] = Report r \<and>
         totalScore r = 0 \<and>
         (\<forall>k \<in> {''TA'', ''SL'', ''ER'', ''BP'', ''BS''}. skillScores r k = Some 0) \<and>
         detailedResults r = [] \<and>
         behavioralSummary r =
           \<lparr>fastResponses = 0, slowResponses = 0, optimalResponses = 0, totalTimeMs = 0\<rparr>"
    if "qs \<noteq> []"
    using that z [OF that]
    by (simp add: score_questions_def build_report_def bind_exn_def skill_keys_def
        normalize_key_def initial_skill_scores)
  moreover have "score_questions rnd e job_key jq answers = NotFound \<longleftrightarrow>
      jq = None \<or> jq = Some []"
    by (simp add: score_questions_def split: option.splits sum.splits)
  ultimately show ?thesis
    by blast
qed

theorem empty_answers_give_zero_report_witness:
  "[example_question] \<noteq> [] \<and>
   (\<exists>r. score_questions py_round_pct (example_env None) ''dev'' (Some [example_question]) [] =
           Report r \<and>
         totalScore r = 0 \<and>
         (\<forall>k \<in> {''TA'', ''SL'', ''ER'', ''BP'', ''BS''}. skillScores r k = Some 0) \<and>
         detailedResults r = [] \<and>
         behavioralSummary r =
           \<lparr>fastResponses = 0, slowResponses = 0, optimalResponses = 0, totalTimeMs = 0\<rparr>) \<and>
   score_questions py_round_pct (example_env None) ''dev'' (Some []) [example_answer 45000] =
     NotFound \<and>
   score_questions py_round_pct (example_env None) ''dev'' None [example_answer 45000] = NotFound \<and>
   score_questions py_round_pct (example_env None) ''dev'' (Some [example_question])
     [example_answer 45000] \<noteq> NotFound"
proof -
  have h: "[example_question] \<noteq> []"
    by simp
  note t = empty_answers_give_zero_report [where rnd = py_round_pct and e = "example_env None"
      and job_key = "''dev''" and answers = "[example_answer 45000]"]
  show ?thesis
    using h t [of "[example_question]" "Some []"] t [of "[example_question]" None]
      t [of "[example_question]" "Some [example_question]"]
    by simp
qed

text \<open>
  C10. In every report returned, \<^verbatim>\<open>totalTimeMs\<close> is the sum of the \<^verbatim>\<open>timeTakenMs\<close> of the
  detailed results; the three counters count the detailed results with a time below
  15000, above 60000, and from 30000 to 60000; so their sum is the number of detailed
  results outside the gap from 15000 to 29999, and at most the number of detailed
  results.
\<close>

theorem summary_agrees_with_details:
  assumes "score_questions rnd e job_key jq answers = Report r"
  shows "totalTimeMs (behavioralSummary r) = sum_list (map d_timeTakenMs (detailedResults r)) \<and>
     fastResponses (behavioralSummary r) =
       int (length (filter (\<lambda>d. d_timeTakenMs d < 15000) (detailedResults r))) \<and>
     slowResponses (behavioralSummary r) =
       int (length (filter (\<lambda>d. d_timeTakenMs d > 60000) (detailedResults r))) \<and>
     optimalResponses (behavioralSummary r) =
       int (length (filter (\<lambda>d. 30000 \<le> d_timeTakenMs d \<and> d_timeTakenMs d \<le> 60000)
              (detailedResults r))) \<and>
     fastResponses (behavioralSummary r) + slowResponses (behavioralSummary r) +
       optimalResponses (behavioralSummary r) =
       int (length (filter (\<lambda>d. \<not> (15000 \<le> d_timeTakenMs d \<and> d_timeTakenMs d < 30000))
              (detailedResults r))) \<and>
     fastResponses (behavioralSummary r) + slowResponses (behavioralSummary r) +
       optimalResponses (behavioralSummary r) \<le> int (length (detailedResults r))"
proof -
  from assms obtain qs st where loop: "run_loop qs answers initial_state = Inr st"
    and b: "build_report rnd e job_key qs st = Inr r"
    by (rule score_questions_Report)
  from b have bs: "behavioralSummary r = summary st" and dr: "detailedResults r = detailed_results st"
    by (auto elim: build_report_Inr)
  from loop have "st = add_deltas qs answers initial_state"
    by (simp add: run_loop_Inr_iff [OF dom_initial])
  then have c: "consistent st"
    by (simp add: consistent_add_deltas consistent_initial)
  have split3: "int (length (filter (\<lambda>d. d_timeTakenMs d < 15000) ds)) +
      int (length (filter (\<lambda>d. d_timeTakenMs d > 60000) ds)) +
      int (length (filter (\<lambda>d. 30000 \<le> d_timeTakenMs d \<and> d_timeTakenMs d \<le> 60000) ds)) =
      int (length (filter (\<lambda>d. \<not> (15000 \<le> d_timeTakenMs d \<and> d_timeTakenMs d < 30000)) ds))"
    for ds :: "detail list"
    by (induction ds) auto
  have le: "int (length (filter (\<lambda>d. \<not> (15000 \<le> d_timeTakenMs d \<and> d_timeTakenMs d < 30000)) ds))
      \<le> int (length ds)" for ds :: "detail list"
    by simp
  show ?thesis
    using c split3 [of "detailed_results st"] le [of "detailed_results st"]
    by (simp add: consistent_def bs dr)
qed

theorem summary_agrees_with_details_witness:
  "\<exists>r. score_questions py_round_pct (example_env None) ''dev'' (Some [example_question])
          [example_answer 45000] = Report r \<and>
        totalTimeMs (behavioralSummary r) = 45000 \<and>
        sum_list (map d_timeTakenMs (detailedResults r)) = 45000 \<and>
        optimalResponses (behavioralSummary r) = 1 \<and>
        fastResponses (behavioralSummary r) + slowResponses (behavioralSummary r) +
          optimalResponses (behavioralSummary r) \<le> int (length (detailedResults r))"
proof -
  from example_report_fields obtain r where
    r: "score_questions py_round_pct (example_env None) ''dev'' (Some [example_question])
          [example_answer 45000] = Report r"
    and s: "behavioralSummary r = summary example_final"
    and d: "detailedResults r = detailed_results example_final"
    by blast
  have "totalTimeMs (behavioralSummary r) = 45000" "optimalResponses (behavioralSummary r) = 1"
    by (simp_all add: s example_final_def)
  with summary_agrees_with_details [OF r] r show ?thesis
    by auto
qed

end
